theory Spec2Isabelle
  imports Main
begin

section \<open>The application object of \<open>flask/app.py\<close>\<close>

text \<open>
  Naming: Isabelle identifiers cannot start with an underscore, so a leading underscore
  of the source is written as the prefix \<open>u_\<close> (\<open>_name\<close> is \<open>u_name\<close>,
  \<open>_make_timedelta\<close> is \<open>u_make_timedelta\<close>), and \<open>__init__\<close> is \<open>Flask_init\<close>.
\<close>

subsection \<open>Exceptions\<close>

datatype error =
    AttributeError string
  | TypeError
  | IndexError
  | OverflowError

subsection \<open>\<open>_make_timedelta\<close> (lines 69-80)\<close>

text \<open>
  \<open>datetime.timedelta\<close> of the standard library, as documented: a normalised triple of
  days, seconds (\<open>0 \<le> seconds < 86400\<close>) and microseconds, whose number of days has a
  magnitude of at most 999999999; a constructor call that leaves this range raises
  \<open>OverflowError\<close>.
\<close>

datatype timedelta = Timedelta (days: int) (seconds: int) (microseconds: int)

definition total_seconds :: "timedelta \<Rightarrow> int" where
  "total_seconds t = days t * 86400 + seconds t"

definition timedelta_of_seconds :: "int \<Rightarrow> error + timedelta" where
  \<comment> \<open>\<open>timedelta(seconds=n)\<close> for an integer \<open>n\<close> (Python's \<open>divmod\<close> rounds down, as
      \<open>div\<close> and \<open>mod\<close> do on \<open>int\<close>).\<close>
  "timedelta_of_seconds n =
     (let d = n div 86400; s = n mod 86400
      in if \<bar>d\<bar> > 999999999 then Inl OverflowError else Inr (Timedelta d s 0))"

text \<open>The argument type \<open>timedelta | int | None\<close> of the source.\<close>

datatype td_value = NoneValue | TimedeltaValue timedelta | IntValue int

definition u_make_timedelta :: "td_value \<Rightarrow> error + timedelta option" where
  "u_make_timedelta v =
     (case v of
        NoneValue \<Rightarrow> Inr None
      | TimedeltaValue t \<Rightarrow> Inr (Some t)
      | IntValue n \<Rightarrow>
          (case timedelta_of_seconds n of Inl e \<Rightarrow> Inl e | Inr t \<Rightarrow> Inr (Some t)))"

subsection \<open>Values, the class namespace and external calls\<close>

text \<open>
  The values the constructor handles. \<open>Global n\<close> is the object bound to the imported
  name \<open>n\<close> (a class such as \<open>Lock\<close> or \<open>Config\<close>); \<open>Instance c\<close> is an instance of
  class \<open>c\<close> made when the class body ran; \<open>BoundMethod m\<close> is the method \<open>m\<close> bound to
  the application object; \<open>PropertyValue p\<close> is what the getter of property \<open>p\<close>
  returns; \<open>Ref k\<close> is the result of the external call logged at position \<open>k\<close> of the
  store.
\<close>

datatype pyval =
    PyNone
  | PyBool bool
  | PyStr string
  | Global string
  | Instance string
  | BoundMethod string
  | PropertyValue string
  | Ref nat

text \<open>
  The code of \<open>Lock\<close>, \<open>Config\<close>, \<open>cli.AppGroup\<close> and of whatever \<open>url_map_class\<close> is
  bound to lies outside this file. A call of such an object is logged in the store with
  its callee and arguments and yields a reference to the new entry; calling \<open>None\<close>, a
  boolean or a string raises \<open>TypeError\<close> (the object is not callable).
\<close>

type_synonym store = "(pyval \<times> pyval list) list"

definition call :: "pyval \<Rightarrow> pyval list \<Rightarrow> store \<Rightarrow> error + (pyval \<times> store)" where
  "call f args st =
     (case f of
        PyNone \<Rightarrow> Inl TypeError
      | PyBool b \<Rightarrow> Inl TypeError
      | PyStr s \<Rightarrow> Inl TypeError
      | _ \<Rightarrow> Inr (Ref (length st), st @ [(f, args)]))"

text \<open>
  A member of a class body: an attribute assigned a value, a method (\<open>def\<close>), or a
  property.
\<close>

datatype member = Attr pyval | Method | Property

definition Flask_namespace :: "(string \<times> member) list" where
  \<comment> \<open>what the body of \<open>class Flask\<close> defines (lines 162-279); its only base is \<open>object\<close>\<close>
  "Flask_namespace =
     [(''request_class'', Attr (Global ''Request'')),
      (''response_class'', Attr (Global ''Response'')),
      (''jinja_environment'', Attr (Global ''Environment'')),
      (''app_ctx_globals_class'', Attr (Global ''AppContext'')),
      (''config_class'', Attr (Global ''Config'')),
      (''test_client_class'', Attr PyNone),
      (''session_interface'', Attr (Instance ''SecureCookieSessionInterface'')),
      (''__init__'', Method),
      (''_register_error_handler'', Method),
      (''name'', Property),
      (''__repr__'', Method)]"

fun bind_member :: "string \<Rightarrow> member \<Rightarrow> pyval" where
  \<comment> \<open>the value of \<open>self.n\<close> when the class namespace holds that member under \<open>n\<close>\<close>
  "bind_member n (Attr v) = v"
| "bind_member n Method = BoundMethod n"
| "bind_member n Property = PropertyValue n"

text \<open>
  \<open>self.n\<close> for a name \<open>n\<close> that the instance dictionary does not hold. The name is
  looked up in the class body of this file first; \<open>rest\<close> stands for class members
  defined elsewhere (for the class as this file writes it, \<open>rest\<close> is empty). A name
  found in neither raises \<open>AttributeError\<close>.
\<close>

definition getattr_self :: "(string \<rightharpoonup> member) \<Rightarrow> string \<Rightarrow> error + pyval" where
  "getattr_self rest n =
     (case map_of Flask_namespace n of
        Some m \<Rightarrow> Inr (bind_member n m)
      | None \<Rightarrow> (case rest n of Some m \<Rightarrow> Inr (bind_member n m)
                 | None \<Rightarrow> Inl (AttributeError n)))"

subsection \<open>The application object\<close>

text \<open>
  A registry key is \<open>AppOrBlueprintKey\<close>: \<open>None\<close> for the application, or the name of a
  blueprint. Exception classes are dictionary keys, compared by identity.
\<close>

datatype exc_class = NotFound | HTTPException | ExcClass string

type_synonym 'a registry = "string option \<rightharpoonup> 'a"

record flask =
  u_got_first_request :: bool
  u_before_request_lock :: pyval
  u_before_request_funcs :: "pyval list registry"
  u_after_request_funcs :: "pyval list registry"
  u_teardown_request_funcs :: "pyval list registry"
  u_teardown_appcontext_funcs :: "pyval list registry"
  u_url_default_functions :: "pyval list registry"
  u_url_value_preprocessors :: "pyval list registry"
  u_template_context_processors :: "pyval list registry"
  u_error_handlers :: "(exc_class \<rightharpoonup> pyval) registry"
  u_before_first_request_funcs :: "pyval list"
  u_name :: string
  url_map :: pyval
  static_folder :: "string option"
  static_url_path :: "string option"
  static_host :: "string option"
  host_matching :: bool
  subdomain_matching :: bool
  template_folder :: "string option"
  instance_path :: "string option"
  instance_relative_config :: bool
  root_path :: "string option"
  config :: pyval
  view_functions :: "string \<rightharpoonup> pyval"
  blueprints :: "string \<rightharpoonup> pyval"
  extensions :: "string \<rightharpoonup> pyval"
  shell_context_processors :: "pyval list"
  u_cli_commands :: pyval

subsection \<open>\<open>_register_error_handler\<close> (lines 253-259)\<close>

text \<open>
  \<open>self._error_handlers.setdefault(None, {})[exception_class] = handler\<close>. The inner
  dictionaries are values here: the only place of this file that creates one is the
  fresh \<open>{}\<close> of this \<open>setdefault\<close>, so no two keys share a dictionary.
\<close>

definition u_register_error_handler :: "flask \<Rightarrow> exc_class \<Rightarrow> pyval \<Rightarrow> flask" where
  "u_register_error_handler self exception_class handler =
     (let d = (case u_error_handlers self None of None \<Rightarrow> Map.empty | Some d0 \<Rightarrow> d0)
      in self\<lparr>u_error_handlers :=
                (u_error_handlers self)(None \<mapsto> d(exception_class \<mapsto> handler))\<rparr>)"

subsection \<open>The constructor (lines 190-251)\<close>

definition of_opt_str :: "string option \<Rightarrow> pyval" where
  \<comment> \<open>a value of type \<open>str | None\<close> passed on as an argument\<close>
  "of_opt_str x = (case x of None \<Rightarrow> PyNone | Some s \<Rightarrow> PyStr s)"

text \<open>
  The constructor, statement by statement. An exception leaves it at once and no object
  is returned. \<open>self.name = import_name\<close> goes through the setter of the property \<open>name\<close>
  (lines 274-276), which stores \<open>_name\<close>. On line 250 and 251 the arguments are
  evaluated before the call, so a missing handler raises before anything is registered
  by that line; \<open>_register_error_handler\<close> itself is found in the class body.
\<close>

definition Flask_init ::
  "(string \<rightharpoonup> member) \<Rightarrow> string \<Rightarrow> string option \<Rightarrow> string option \<Rightarrow> string option \<Rightarrow>
   bool \<Rightarrow> bool \<Rightarrow> string option \<Rightarrow> string option \<Rightarrow> bool \<Rightarrow> string option \<Rightarrow>
   store \<Rightarrow> error + (flask \<times> store)" where
  "Flask_init rest import_name static_url_path0 static_folder0 static_host0
       host_matching0 subdomain_matching0 template_folder0 instance_path0
       instance_relative_config0 root_path0 st0 =
     (case call (Global ''Lock'') [] st0 of Inl e \<Rightarrow> Inl e | Inr (lock, st1) \<Rightarrow>
      case getattr_self rest ''url_map_class'' of Inl e \<Rightarrow> Inl e | Inr umc \<Rightarrow>
      case call umc [] st1 of Inl e \<Rightarrow> Inl e | Inr (um, st2) \<Rightarrow>
      case getattr_self rest ''config_class'' of Inl e \<Rightarrow> Inl e | Inr cc \<Rightarrow>
      case getattr_self rest ''default_config'' of Inl e \<Rightarrow> Inl e | Inr dc \<Rightarrow>
      case call cc [of_opt_str root_path0, dc, PyBool instance_relative_config0] st2 of
        Inl e \<Rightarrow> Inl e | Inr (cfg, st3) \<Rightarrow>
      case call (Global ''cli.AppGroup'') [] st3 of Inl e \<Rightarrow> Inl e | Inr (grp, st4) \<Rightarrow>
      let self = \<lparr>u_got_first_request = False,
                  u_before_request_lock = lock,
                  u_before_request_funcs = Map.empty,
                  u_after_request_funcs = Map.empty,
                  u_teardown_request_funcs = Map.empty,
                  u_teardown_appcontext_funcs = Map.empty,
                  u_url_default_functions = Map.empty,
                  u_url_value_preprocessors = Map.empty,
                  u_template_context_processors = Map.empty,
                  u_error_handlers = Map.empty,
                  u_before_first_request_funcs = [],
                  u_name = import_name,
                  url_map = um,
                  static_folder = static_folder0,
                  static_url_path = static_url_path0,
                  static_host = static_host0,
                  host_matching = host_matching0,
                  subdomain_matching = subdomain_matching0,
                  template_folder = template_folder0,
                  instance_path = instance_path0,
                  instance_relative_config = instance_relative_config0,
                  root_path = root_path0,
                  config = cfg,
                  view_functions = Map.empty,
                  blueprints = Map.empty,
                  extensions = Map.empty,
                  shell_context_processors = [],
                  u_cli_commands = grp\<rparr>
      in
      case getattr_self rest ''handle_user_exception'' of Inl e \<Rightarrow> Inl e | Inr h1 \<Rightarrow>
      let self1 = u_register_error_handler self NotFound h1 in
      case getattr_self rest ''handle_http_exception'' of Inl e \<Rightarrow> Inl e | Inr h2 \<Rightarrow>
      Inr (u_register_error_handler self1 HTTPException h2, st4))"

subsection \<open>The property \<open>name\<close> (lines 261-276)\<close>

primrec rfind :: "string \<Rightarrow> char \<Rightarrow> int" where
  \<comment> \<open>\<open>p.rfind(c)\<close>: the highest index of \<open>c\<close> in \<open>p\<close>, or -1\<close>
  "rfind [] c = - 1"
| "rfind (x # xs) c =
     (let r = rfind xs c in if 0 \<le> r then r + 1 else if x = c then 0 else - 1)"

definition basename :: "string \<Rightarrow> string" where
  \<comment> \<open>\<open>os.path.basename\<close> of \<open>posixpath\<close>: \<open>i = p.rfind('/') + 1; return p[i:]\<close>\<close>
  "basename p = drop (nat (rfind p (CHR ''/'') + 1)) p"

definition endswith :: "string \<Rightarrow> string \<Rightarrow> bool" where
  "endswith s suffix0 =
     (length suffix0 \<le> length s \<and> drop (length s - length suffix0) s = suffix0)"

text \<open>
  The getter reads \<open>sys.argv\<close>, a list: \<open>sys.argv[0]\<close> raises \<open>IndexError\<close> when the list
  is empty. \<open>base[:-3]\<close> keeps all but the last three characters.
\<close>

definition name :: "string list \<Rightarrow> flask \<Rightarrow> error + string" where
  "name argv self =
     (if u_name self = ''__main__'' then
        (case argv of
           [] \<Rightarrow> Inl IndexError
         | script # _ \<Rightarrow>
             (let base = basename script;
                  base = (if endswith base ''.py'' then take (length base - 3) base else base)
              in Inr base))
      else Inr (u_name self))"

definition name_setter :: "flask \<Rightarrow> string \<Rightarrow> flask" where
  "name_setter self v = self\<lparr>u_name := v\<rparr>"

section \<open>Properties\<close>

subsection \<open>\<open>_make_timedelta\<close>\<close>

text \<open>
  C8, the claim as stated fails: ten to the fifteenth seconds are more than 999999999
  days, so \<open>timedelta(seconds=value)\<close> raises \<open>OverflowError\<close> and \<open>_make_timedelta\<close>
  returns no timedelta for this integer.
\<close>

theorem make_timedelta_overflow_counterexample:
  "u_make_timedelta (IntValue 1000000000000000) = Inl OverflowError"
  by (simp add: u_make_timedelta_def timedelta_of_seconds_def)

text \<open>
  C8, amended: \<open>_make_timedelta\<close> returns \<open>None\<close> exactly for the argument \<open>None\<close>; a
  timedelta is returned unchanged; an integer \<open>n\<close> whose number of whole days
  \<open>n div 86400\<close> has a magnitude of at most 999999999 gives the normalised timedelta of
  exactly \<open>n\<close> seconds and no microseconds; any other integer raises \<open>OverflowError\<close>.
\<close>

theorem make_timedelta_spec:
  "(u_make_timedelta v = Inr None \<longleftrightarrow> v = NoneValue) \<and>
   u_make_timedelta (TimedeltaValue t) = Inr (Some t) \<and>
   (\<bar>n div 86400\<bar> \<le> 999999999 \<longrightarrow>
      (\<exists>r. u_make_timedelta (IntValue n) = Inr (Some r) \<and> total_seconds r = n \<and>
           0 \<le> seconds r \<and> seconds r < 86400 \<and> microseconds r = 0)) \<and>
   (\<bar>n div 86400\<bar> > 999999999 \<longrightarrow> u_make_timedelta (IntValue n) = Inl OverflowError)"
proof -
  have none: "u_make_timedelta v = Inr None \<longleftrightarrow> v = NoneValue"
    by (cases v) (simp_all add: u_make_timedelta_def split: sum.splits)
  have ident: "u_make_timedelta (TimedeltaValue t) = Inr (Some t)"
    by (simp add: u_make_timedelta_def)
  have inrange: "\<exists>r. u_make_timedelta (IntValue n) = Inr (Some r) \<and> total_seconds r = n \<and>
           0 \<le> seconds r \<and> seconds r < 86400 \<and> microseconds r = 0"
    if "\<bar>n div 86400\<bar> \<le> 999999999"
    using that
    by (simp add: u_make_timedelta_def timedelta_of_seconds_def total_seconds_def Let_def)
  have outrange: "u_make_timedelta (IntValue n) = Inl OverflowError"
    if "\<bar>n div 86400\<bar> > 999999999"
    using that by (simp add: u_make_timedelta_def timedelta_of_seconds_def Let_def)
  from none ident inrange outrange show ?thesis by blast
qed

theorem make_timedelta_spec_witness:
  "u_make_timedelta (IntValue 90061) = Inr (Some (Timedelta 1 3661 0)) \<and>
   total_seconds (Timedelta 1 3661 0) = 90061 \<and>
   u_make_timedelta (IntValue (- 86400000000000)) = Inl OverflowError"
  using make_timedelta_spec [of NoneValue "Timedelta 0 0 0" 90061]
    make_timedelta_spec [of NoneValue "Timedelta 0 0 0" "- 86400000000000"]
  by (simp add: u_make_timedelta_def timedelta_of_seconds_def total_seconds_def)

end
